theory Spec2Isabelle
  imports Complex_Main "HOL-Library.AList"
begin

section \<open>Python values and exceptions\<close>

text \<open>
  The values that flow through \<^verbatim>\<open>RuleEngineWrapper\<close> and \<^verbatim>\<open>MQTTInterface\<close>: message
  payloads are \<^verbatim>\<open>str\<close>, rule records come out of \<^verbatim>\<open>yaml.safe_load\<close> and coerced values
  out of \<^verbatim>\<open>int\<close>, \<^verbatim>\<open>float\<close> and \<^verbatim>\<open>ast.literal_eval\<close>. A \<^verbatim>\<open>str\<close> is a \<open>string\<close> holding its
  UTF-8 bytes; a \<^verbatim>\<open>dict\<close> is an association list in insertion order. A \<^verbatim>\<open>float\<close> carries
  the exact decimal value of the text it was parsed from (rounding to binary64 is not
  modelled), or one of the three special values.
\<close>

datatype pyfloat = Finite rat | Infinite bool | NaN

datatype pyval =
    VNone
  | VBool bool
  | VInt int
  | VFloat pyfloat
  | VStr string
  | VList "pyval list"
  | VTuple "pyval list"
  | VDict "(pyval \<times> pyval) list"

text \<open>The exception classes that the two modules can meet. Each is a subclass of
  \<^verbatim>\<open>Exception\<close>, so \<^verbatim>\<open>except Exception\<close> catches every one of them.\<close>

datatype error =
    ValueError
  | SyntaxError
  | TypeError
  | KeyError
  | AttributeError
  | MemoryError
  | RecursionError
  | UnboundLocalError
  | UnicodeDecodeError
  | FileNotFoundError
  | OSError
  | YAMLError
  | RuleSyntaxError
  | SymbolResolutionError
  | EvaluationError

section \<open>String primitives\<close>

definition code :: "char \<Rightarrow> nat" where
  "code c = of_char c"

definition is_space :: "char \<Rightarrow> bool" where
  \<comment> \<open>the ASCII white space that \<^verbatim>\<open>int\<close> and \<^verbatim>\<open>float\<close> skip around a number: TAB..CR
      and SPACE (not FS..US, which \<^verbatim>\<open>str.isspace\<close> also counts)\<close>
  "is_space c = ((9 \<le> code c \<and> code c \<le> 13) \<or> code c = 32)"

definition is_ascii :: "string \<Rightarrow> bool" where
  \<comment> \<open>\<^verbatim>\<open>s.isascii()\<close>: every byte of the text is a character of its own\<close>
  "is_ascii s = list_all (\<lambda>c. code c < 128) s"

definition is_digit :: "char \<Rightarrow> bool" where
  "is_digit c = (48 \<le> code c \<and> code c \<le> 57)"

definition digit_val :: "char \<Rightarrow> nat" where
  "digit_val c = code c - 48"

definition strip :: "string \<Rightarrow> string" where
  "strip s = rev (dropWhile is_space (rev (dropWhile is_space s)))"

definition lower_char :: "char \<Rightarrow> char" where
  "lower_char c = (if 65 \<le> code c \<and> code c \<le> 90 then char_of (code c + 32) else c)"

definition lower :: "string \<Rightarrow> string" where
  \<comment> \<open>\<^verbatim>\<open>str.lower\<close> on the ASCII letters. The code compares the result with \<^verbatim>\<open>"true"\<close>
      and \<^verbatim>\<open>"false"\<close> and looks for \<^verbatim>\<open>'e'\<close> in it; no character outside ASCII has any of
      these letters in its lower case, so the other letters can stay as they are.\<close>
  "lower s = map lower_char s"

definition replace :: "char \<Rightarrow> char \<Rightarrow> string \<Rightarrow> string" where
  \<comment> \<open>\<^verbatim>\<open>s.replace(a, b)\<close> for one-character \<open>a\<close> and \<open>b\<close>.\<close>
  "replace a b s = map (\<lambda>c. if c = a then b else c) s"

definition startswith :: "string \<Rightarrow> string \<Rightarrow> bool" where
  \<comment> \<open>\<^verbatim>\<open>s.startswith(p)\<close>\<close>
  "startswith s p = (take (length p) s = p)"

fun contains :: "string \<Rightarrow> string \<Rightarrow> bool" where
  \<comment> \<open>\<^verbatim>\<open>p in s\<close> for two strings: \<open>contains s p\<close>.\<close>
  "contains [] p = (p = [])"
| "contains (c # cs) p = (startswith (c # cs) p \<or> contains cs p)"

definition rsplit1_head :: "string \<Rightarrow> string" where
  \<comment> \<open>\<^verbatim>\<open>s.rsplit('/', 1)[0]\<close>: the text before the last slash, or all of \<open>s\<close>
      when it has none.\<close>
  "rsplit1_head s =
     (if CHR ''/'' \<in> set s then rev (tl (dropWhile (\<lambda>c. c \<noteq> CHR ''/'') (rev s))) else s)"

section \<open>The built-ins \<^verbatim>\<open>int\<close> and \<^verbatim>\<open>float\<close> on ASCII text\<close>

text \<open>
  \<^verbatim>\<open>int(s)\<close> in base ten, for \<open>s\<close> in ASCII: white space around the number is dropped,
  one sign may lead, and the digits may be grouped by single underscores; more than
  \<open>int_max_str_digits\<close> digits are refused (the interpreter's default limit, which counts
  leading zeros and no underscores). Anything else is \<^verbatim>\<open>ValueError\<close>, here \<open>None\<close>.
\<close>

definition int_max_str_digits :: nat where
  \<comment> \<open>\<^verbatim>\<open>sys.get_int_max_str_digits()\<close>\<close>
  "int_max_str_digits = 4300"

fun digitpart :: "string \<Rightarrow> bool" where
  "digitpart [] = False"
| "digitpart [c] = is_digit c"
| "digitpart (c # d # cs) =
     (is_digit c \<and> (if d = CHR ''_'' then digitpart cs else digitpart (d # cs)))"

definition digits_val :: "string \<Rightarrow> nat" where
  "digits_val s = foldl (\<lambda>a c. 10 * a + digit_val c) 0 (filter is_digit s)"

definition split_sign :: "string \<Rightarrow> bool \<times> string" where
  \<comment> \<open>an optional leading sign: \<open>True\<close> for minus\<close>
  "split_sign s =
     (case s of
        [] \<Rightarrow> (False, [])
      | c # r \<Rightarrow> if c = CHR ''-'' then (True, r) else if c = CHR ''+'' then (False, r)
                 else (False, s))"

definition ascii_int :: "string \<Rightarrow> int option" where
  "ascii_int s =
     (let (neg, body) = split_sign (strip s) in
      if digitpart body \<and> length (filter is_digit body) \<le> int_max_str_digits
      then Some (if neg then - int (digits_val body) else int (digits_val body))
      else None)"

text \<open>
  \<^verbatim>\<open>float(s)\<close>, for \<open>s\<close> in ASCII: white space dropped, one optional sign, then
  \<^verbatim>\<open>inf\<close>, \<^verbatim>\<open>infinity\<close> or \<^verbatim>\<open>nan\<close> in any case, or a decimal number with an optional
  fraction and an optional exponent. \<open>Finite r\<close> stands for the \<^verbatim>\<open>float\<close> nearest to \<open>r\<close>,
  which is infinite when \<open>r\<close> is out of range.
\<close>

definition is_e :: "char \<Rightarrow> bool" where
  "is_e c = (c = CHR ''e'' \<or> c = CHR ''E'')"

definition mantissa_ok :: "string \<Rightarrow> bool" where
  "mantissa_ok m =
     (if CHR ''.'' \<in> set m
      then (let ip = takeWhile (\<lambda>c. c \<noteq> CHR ''.'') m;
                fp = tl (dropWhile (\<lambda>c. c \<noteq> CHR ''.'') m)
            in (ip = [] \<or> digitpart ip) \<and> (fp = [] \<or> digitpart fp) \<and> \<not> (ip = [] \<and> fp = []))
      else digitpart m)"

definition frac_digits :: "string \<Rightarrow> nat" where
  \<comment> \<open>how many digits follow the decimal point\<close>
  "frac_digits m = length (filter is_digit (dropWhile (\<lambda>c. c \<noteq> CHR ''.'') m))"

definition exponent_of :: "string \<Rightarrow> int option" where
  \<comment> \<open>the text after \<^verbatim>\<open>e\<close>: an optional sign and a digit part\<close>
  "exponent_of x =
     (let (neg, body) = split_sign x in
      if digitpart body
      then Some (if neg then - int (digits_val body) else int (digits_val body))
      else None)"

definition scale10 :: "rat \<Rightarrow> int \<Rightarrow> rat" where
  "scale10 r k = (if 0 \<le> k then r * 10 ^ nat k else r / 10 ^ nat (- k))"

definition ascii_float_body :: "string \<Rightarrow> rat option" where
  "ascii_float_body b =
     (let m = takeWhile (\<lambda>c. \<not> is_e c) b;
          rest = dropWhile (\<lambda>c. \<not> is_e c) b
      in if \<not> mantissa_ok m then None
         else (case (if rest = [] then Some 0 else exponent_of (tl rest)) of
                 None \<Rightarrow> None
               | Some k \<Rightarrow> Some (scale10 (of_nat (digits_val m)) (k - int (frac_digits m)))))"

definition ascii_float :: "string \<Rightarrow> pyfloat option" where
  "ascii_float s =
     (let (neg, body) = split_sign (strip s) in
      if lower body = ''inf'' \<or> lower body = ''infinity'' then Some (Infinite neg)
      else if lower body = ''nan'' then Some NaN
      else (case ascii_float_body body of
              None \<Rightarrow> None
            | Some r \<Rightarrow> Some (Finite (if neg then - r else r))))"

section \<open>What the interpreter and the libraries supply\<close>

text \<open>
  The parts of the run-time system that the repository calls and does not define:
  \<^verbatim>\<open>ast.literal_eval\<close> on a string, \<^verbatim>\<open>rule_engine.Rule(text).matches(data)\<close>,
  \<^verbatim>\<open>str\<close> of a value, and \<^verbatim>\<open>int\<close> and \<^verbatim>\<open>float\<close> on text that is not ASCII, where they
  go by the interpreter's tables of Unicode digits and spaces (\<^verbatim>\<open>ValueError\<close> is
  \<open>None\<close>). Each is total here and raises by returning \<open>Inl\<close>.
\<close>

record runtime =
  literal_eval_str :: "string \<Rightarrow> error + pyval"
  rule_matches :: "string \<Rightarrow> (string \<times> pyval) list \<Rightarrow> error + bool"
  py_str :: "pyval \<Rightarrow> string"
  int_unicode :: "string \<Rightarrow> int option"
  float_unicode :: "string \<Rightarrow> pyfloat option"

definition py_int :: "runtime \<Rightarrow> string \<Rightarrow> int option" where
  \<comment> \<open>\<^verbatim>\<open>int(s)\<close> on any text\<close>
  "py_int rt s = (if is_ascii s then ascii_int s else int_unicode rt s)"

definition py_float :: "runtime \<Rightarrow> string \<Rightarrow> pyfloat option" where
  \<comment> \<open>\<^verbatim>\<open>float(s)\<close> on any text\<close>
  "py_float rt s = (if is_ascii s then ascii_float s else float_unicode rt s)"

definition literal_eval :: "runtime \<Rightarrow> pyval \<Rightarrow> error + pyval" where
  \<comment> \<open>\<^verbatim>\<open>ast.literal_eval\<close>: a string is parsed; any other object that is not a syntax
      tree is a malformed node.\<close>
  "literal_eval rt v = (case v of VStr s \<Rightarrow> literal_eval_str rt s | _ \<Rightarrow> Inl ValueError)"

section \<open>Type coercion: \<^verbatim>\<open>RuleEngineWrapper.get_var\<close>\<close>

definition is_int :: "runtime \<Rightarrow> pyval \<Rightarrow> bool" where
  "is_int rt v =
     (case v of
        VInt n \<Rightarrow> True
      | VStr s \<Rightarrow>
          if length s > 0
          then (case py_int rt s of
                  None \<Rightarrow> False
                | Some n \<Rightarrow> CHR ''.'' \<notin> set s \<and> CHR ''e'' \<notin> set s)
          else False
      | _ \<Rightarrow> False)"

definition is_float :: "runtime \<Rightarrow> pyval \<Rightarrow> bool" where
  "is_float rt v =
     (case v of
        VFloat x \<Rightarrow> True
      | VStr s \<Rightarrow>
          if length s > 0
          then (case py_float rt s of
                  None \<Rightarrow> False
                | Some x \<Rightarrow> CHR ''.'' \<in> set s \<or> CHR ''e'' \<in> set (lower s))
          else False
      | _ \<Rightarrow> False)"

definition is_bool :: "pyval \<Rightarrow> bool" where
  "is_bool v =
     (case v of
        VBool b \<Rightarrow> True
      | VStr s \<Rightarrow> length s > 0 \<and> lower s \<in> set [''true'', ''false'']
      | _ \<Rightarrow> False)"

definition is_dict :: "runtime \<Rightarrow> pyval \<Rightarrow> error + bool" where
  \<comment> \<open>Only \<^verbatim>\<open>ValueError\<close> and \<^verbatim>\<open>SyntaxError\<close> are caught; a value that is neither a
      \<^verbatim>\<open>dict\<close> nor a \<^verbatim>\<open>str\<close> reaches the final \<^verbatim>\<open>return True\<close>.\<close>
  "is_dict rt v =
     (case v of
        VDict kvs \<Rightarrow> Inr True
      | VStr s \<Rightarrow>
          (case literal_eval rt (VStr s) of
             Inl e \<Rightarrow> if e = ValueError \<or> e = SyntaxError then Inr False else Inl e
           | Inr d \<Rightarrow> Inr True)
      | _ \<Rightarrow> Inr True)"

definition py_int_of :: "runtime \<Rightarrow> pyval \<Rightarrow> error + pyval" where
  \<comment> \<open>\<^verbatim>\<open>int(s)\<close> where \<^verbatim>\<open>get_var\<close> calls it: on an \<^verbatim>\<open>int\<close> or a \<^verbatim>\<open>str\<close>\<close>
  "py_int_of rt v =
     (case v of
        VInt n \<Rightarrow> Inr (VInt n)
      | VStr s \<Rightarrow> (case py_int rt s of None \<Rightarrow> Inl ValueError | Some n \<Rightarrow> Inr (VInt n))
      | _ \<Rightarrow> Inl TypeError)"

definition py_float_of :: "runtime \<Rightarrow> pyval \<Rightarrow> error + pyval" where
  \<comment> \<open>\<^verbatim>\<open>float(s)\<close> where \<^verbatim>\<open>get_var\<close> calls it: on a \<^verbatim>\<open>float\<close> or a \<^verbatim>\<open>str\<close>\<close>
  "py_float_of rt v =
     (case v of
        VFloat x \<Rightarrow> Inr (VFloat x)
      | VStr s \<Rightarrow> (case py_float rt s of None \<Rightarrow> Inl ValueError | Some x \<Rightarrow> Inr (VFloat x))
      | _ \<Rightarrow> Inl TypeError)"

definition lower_of :: "pyval \<Rightarrow> error + string" where
  \<comment> \<open>\<^verbatim>\<open>s.lower()\<close>: only a \<^verbatim>\<open>str\<close> has the method\<close>
  "lower_of v = (case v of VStr s \<Rightarrow> Inr (lower s) | _ \<Rightarrow> Inl AttributeError)"

definition get_var :: "runtime \<Rightarrow> pyval \<Rightarrow> error + pyval" where
  "get_var rt s =
     (if is_int rt s then py_int_of rt s
      else if is_float rt s then py_float_of rt s
      else if is_bool s then
        (case lower_of s of Inl e \<Rightarrow> Inl e | Inr l \<Rightarrow> Inr (VBool (l = ''true'')))
      else (case is_dict rt s of
              Inl e \<Rightarrow> Inl e
            | Inr True \<Rightarrow> literal_eval rt s
            | Inr False \<Rightarrow> Inr s))"

section \<open>Operations on values\<close>

definition getitem_str :: "pyval \<Rightarrow> string \<Rightarrow> error + pyval" where
  \<comment> \<open>\<^verbatim>\<open>v['key']\<close> with a string key: a \<^verbatim>\<open>dict\<close> looks the key up, and no other type
      takes a string as subscript.\<close>
  "getitem_str v k =
     (case v of
        VDict kvs \<Rightarrow> (case map_of kvs (VStr k) of None \<Rightarrow> Inl KeyError | Some x \<Rightarrow> Inr x)
      | _ \<Rightarrow> Inl TypeError)"

definition setitem_str :: "pyval \<Rightarrow> string \<Rightarrow> pyval \<Rightarrow> error + pyval" where
  \<comment> \<open>\<^verbatim>\<open>v['key'] = x\<close>\<close>
  "setitem_str v k x =
     (case v of
        VDict kvs \<Rightarrow> Inr (VDict (AList.update (VStr k) x kvs))
      | _ \<Rightarrow> Inl TypeError)"

definition py_iter :: "pyval \<Rightarrow> error + pyval list" where
  \<comment> \<open>the items a \<^verbatim>\<open>for\<close> loop over the value visits\<close>
  "py_iter v =
     (case v of
        VList xs \<Rightarrow> Inr xs
      | VTuple xs \<Rightarrow> Inr xs
      | VDict kvs \<Rightarrow> Inr (map fst kvs)
      | VStr s \<Rightarrow> Inr (map (\<lambda>c. VStr [c]) s)
      | _ \<Rightarrow> Inl TypeError)"

section \<open>Rule evaluation: \<^verbatim>\<open>RuleEngineWrapper.evaluate_rules\<close>\<close>

text \<open>The calls to \<^verbatim>\<open>logging\<close> that tell what a pass did, recorded in the order in which
  they are made, whether or not the logging level lets the line through. The other
  \<^verbatim>\<open>logging.debug\<close> calls are left out.\<close>

datatype log_entry =
    LogData                   \<comment> \<open>\<^verbatim>\<open>DATA: ...\<close>, once per call of \<^verbatim>\<open>evaluate_rules\<close>\<close>
  | LogRule string            \<comment> \<open>\<^verbatim>\<open>RULE_ENGINE.RULE ...\<close>, just before a rule is evaluated\<close>
  | LogSyntaxError string     \<comment> \<open>\<^verbatim>\<open>Rule syntax error in rule ...\<close>\<close>
  | LogNotFound               \<comment> \<open>\<^verbatim>\<open>Not found the rule topic ...\<close>\<close>
  | LogUnexpected error       \<comment> \<open>\<^verbatim>\<open>Unexpected Error during rule evaluation: ...\<close>\<close>
  | LogException error        \<comment> \<open>\<^verbatim>\<open>Exception: ...\<close> of \<^verbatim>\<open>load_rules\<close>\<close>
  | LogRulesLoaded            \<comment> \<open>\<^verbatim>\<open>RULES: ...\<close> of \<^verbatim>\<open>load_rules\<close>\<close>
  | LogFileNotFound           \<comment> \<open>\<^verbatim>\<open>File ... not found.\<close>\<close>
  | LogReloading              \<comment> \<open>\<^verbatim>\<open>File ... has been modified. Reloading data.\<close>\<close>

definition preprocess_rule :: "string \<Rightarrow> string" where
  "preprocess_rule rule_str = replace (CHR ''/'') (CHR ''_'') rule_str"

definition preprocess_rule_of :: "pyval \<Rightarrow> error + string" where
  \<comment> \<open>\<^verbatim>\<open>_preprocess_rule\<close> on whatever the rule record holds: only a \<^verbatim>\<open>str\<close> has
      \<^verbatim>\<open>replace\<close>.\<close>
  "preprocess_rule_of v =
     (case v of VStr s \<Rightarrow> Inr (preprocess_rule s) | _ \<Rightarrow> Inl AttributeError)"

fun preprocess_data_acc ::
  "runtime \<Rightarrow> (string \<times> string) list \<Rightarrow> (string \<times> pyval) list \<Rightarrow> error + (string \<times> pyval) list"
where
  "preprocess_data_acc rt [] acc = Inr acc"
| "preprocess_data_acc rt ((key, val) # kvs) acc =
     (case get_var rt (VStr val) of
        Inl e \<Rightarrow> Inl e
      | Inr x \<Rightarrow> preprocess_data_acc rt kvs (AList.update (replace (CHR ''/'') (CHR ''_'') key) x acc))"

definition preprocess_data :: "runtime \<Rightarrow> (string \<times> string) list \<Rightarrow> error + (string \<times> pyval) list" where
  \<comment> \<open>the dict comprehension, filled in the order of \<^verbatim>\<open>data.items()\<close>\<close>
  "preprocess_data rt data = preprocess_data_acc rt data []"

text \<open>
  One turn of the \<^verbatim>\<open>for rule_info in self.rules\<close> loop: the actions it appends to
  \<^verbatim>\<open>output\<close>, the lines it logs, and the exception that leaves the loop, if any. The two
  handlers of the inner \<^verbatim>\<open>try\<close> catch \<^verbatim>\<open>RuleSyntaxError\<close> and \<^verbatim>\<open>SymbolResolutionError\<close>
  and nothing else.
\<close>

definition rule_body ::
  "runtime \<Rightarrow> (string \<times> pyval) list \<Rightarrow> string \<Rightarrow> pyval
     \<Rightarrow> (pyval list \<times> log_entry list) \<times> error option"
where
  "rule_body rt preprocessed_data rule_filter rule_info =
     (case getitem_str rule_info ''rule'' of
        Inl e \<Rightarrow> (([], []), Some e)
      | Inr r \<Rightarrow>
     (case preprocess_rule_of r of
        Inl e \<Rightarrow> (([], []), Some e)
      | Inr rule_str \<Rightarrow>
     (case getitem_str rule_info ''actions'' of
        Inl e \<Rightarrow> (([], []), Some e)
      | Inr actions \<Rightarrow>
        if contains rule_str (preprocess_rule rule_filter)
        then (case rule_matches rt rule_str preprocessed_data of
                Inl e \<Rightarrow>
                  if e = RuleSyntaxError
                    then (([], [LogRule rule_str, LogSyntaxError rule_str]), None)
                  else if e = SymbolResolutionError
                    then (([], [LogRule rule_str, LogNotFound]), None)
                  else (([], [LogRule rule_str]), Some e)
              | Inr False \<Rightarrow> (([], [LogRule rule_str]), None)
              | Inr True \<Rightarrow>
                  (case py_iter actions of
                     Inl e \<Rightarrow> (([], [LogRule rule_str]), Some e)
                   | Inr acts \<Rightarrow> ((acts, [LogRule rule_str]), None)))
        else (([], []), None))))"

fun rules_loop ::
  "runtime \<Rightarrow> (string \<times> pyval) list \<Rightarrow> string \<Rightarrow> pyval list
     \<Rightarrow> pyval list \<times> log_entry list \<Rightarrow> (pyval list \<times> log_entry list) \<times> error option"
where
  "rules_loop rt pd rule_filter [] (output, lg) = ((output, lg), None)"
| "rules_loop rt pd rule_filter (rule_info # rest) (output, lg) =
     (case rule_body rt pd rule_filter rule_info of
        ((acts, ls), Some e) \<Rightarrow> ((output @ acts, lg @ ls), Some e)
      | ((acts, ls), None) \<Rightarrow> rules_loop rt pd rule_filter rest (output @ acts, lg @ ls))"

definition evaluate_try ::
  "runtime \<Rightarrow> pyval \<Rightarrow> (string \<times> string) list \<Rightarrow> string
     \<Rightarrow> (pyval list \<times> log_entry list) \<times> error option"
where
  \<comment> \<open>the body of the outer \<^verbatim>\<open>try\<close>, with what it had collected when it was left\<close>
  "evaluate_try rt rules data rule_filter =
     (case preprocess_data rt data of
        Inl e \<Rightarrow> (([], []), Some e)
      | Inr pd \<Rightarrow>
          (case py_iter rules of
             Inl e \<Rightarrow> (([], []), Some e)
           | Inr rule_infos \<Rightarrow> rules_loop rt pd rule_filter rule_infos ([], [])))"

definition evaluate_rules ::
  "runtime \<Rightarrow> pyval \<Rightarrow> (string \<times> string) list \<Rightarrow> string \<Rightarrow> pyval list \<times> log_entry list"
where
  \<comment> \<open>\<open>rules\<close> is \<^verbatim>\<open>self.rules\<close>; the result is \<^verbatim>\<open>output\<close> and the lines logged\<close>
  "evaluate_rules rt rules data rule_filter =
     (if rules \<noteq> VNone
      then (case evaluate_try rt rules data rule_filter of
              ((output, lg), None) \<Rightarrow> (output, LogData # lg)
            | ((output, lg), Some e) \<Rightarrow> (output, LogData # lg @ [LogUnexpected e]))
      else ([], [LogData]))"

section \<open>Hot reload: \<^verbatim>\<open>load_rules\<close> and \<^verbatim>\<open>load_and_run\<close>\<close>

text \<open>
  The fields of a \<^verbatim>\<open>RuleEngineWrapper\<close> that the watcher thread reads and writes. What the
  file system answers in one turn of the loop is a \<open>poll\<close>: the result of
  \<^verbatim>\<open>os.path.getmtime\<close> and the result of opening the file and running
  \<^verbatim>\<open>yaml.safe_load\<close> on it.
\<close>

record wrapper =
  yaml_file :: "string option"
  rules :: pyval
  last_modified_time :: "rat option"
  wlog :: "log_entry list"

record poll =
  getmtime :: "error + rat"
  safe_load :: "error + pyval"

definition load_rules :: "wrapper \<Rightarrow> poll \<Rightarrow> pyval \<times> log_entry list" where
  \<comment> \<open>Every exception is caught and logged; the local \<^verbatim>\<open>rules\<close> keeps the value it had
      when the exception came.\<close>
  "load_rules w p =
     (case yaml_file w of
        None \<Rightarrow> (VNone, [LogRulesLoaded])
      | Some f \<Rightarrow>
          (case safe_load p of
             Inl e \<Rightarrow> (VNone, [LogException e, LogRulesLoaded])
           | Inr doc \<Rightarrow>
               (case getitem_str doc ''rules'' of
                  Inl e \<Rightarrow> (VNone, [LogException e, LogRulesLoaded])
                | Inr rs \<Rightarrow>
                    (case py_iter rs of
                       Inl e \<Rightarrow> (rs, [LogException e, LogRulesLoaded])
                     | Inr items \<Rightarrow> (rs, [LogRulesLoaded])))))"

text \<open>
  One turn of \<^verbatim>\<open>while True\<close>. The loop's local \<^verbatim>\<open>current_modified_time\<close> is carried from
  turn to turn and is \<open>None\<close> while it is unbound. An exception other than the caught
  \<^verbatim>\<open>FileNotFoundError\<close> ends the thread; the fields keep what was assigned before it.
\<close>

definition load_and_run_turn ::
  "wrapper \<times> rat option \<Rightarrow> poll \<Rightarrow> (wrapper \<times> rat option) \<times> error option"
where
  "load_and_run_turn wc p =
     (let w = fst wc; cmt = snd wc in
      case (case yaml_file w of None \<Rightarrow> Inl TypeError | Some f \<Rightarrow> getmtime p) of
        Inl e \<Rightarrow>
          if e = FileNotFoundError
          then (let w1 = w\<lparr>wlog := wlog w @ [LogFileNotFound]\<rparr> in
                if last_modified_time w1 = None
                then (let (rs, ls) = load_rules w1 p;
                          w2 = w1\<lparr>rules := rs, wlog := wlog w1 @ LogReloading # ls\<rparr>
                      in case cmt of
                           None \<Rightarrow> ((w2, cmt), Some UnboundLocalError)
                         | Some t \<Rightarrow> ((w2\<lparr>last_modified_time := Some t\<rparr>, cmt), None))
                else (case cmt of
                        None \<Rightarrow> ((w1, cmt), Some UnboundLocalError)
                      | Some t \<Rightarrow>
                          if Some t \<noteq> last_modified_time w1
                          then (let (rs, ls) = load_rules w1 p in
                                ((w1\<lparr>rules := rs, last_modified_time := Some t,
                                      wlog := wlog w1 @ LogReloading # ls\<rparr>, cmt), None))
                          else ((w1, cmt), None)))
          else ((w, cmt), Some e)
      | Inr t \<Rightarrow>
          if last_modified_time w = None \<or> Some t \<noteq> last_modified_time w
          then (let (rs, ls) = load_rules w p in
                ((w\<lparr>rules := rs, last_modified_time := Some t,
                     wlog := wlog w @ LogReloading # ls\<rparr>, Some t), None))
          else ((w, Some t), None))"

fun load_and_run ::
  "wrapper \<times> rat option \<Rightarrow> poll list \<Rightarrow> (wrapper \<times> rat option) \<times> error option"
where
  \<comment> \<open>the first turns of the loop, one per poll, up to the one that ends the thread\<close>
  "load_and_run wc [] = (wc, None)"
| "load_and_run wc (p # ps) =
     (case load_and_run_turn wc p of
        (wc', Some e) \<Rightarrow> (wc', Some e)
      | (wc', None) \<Rightarrow> load_and_run wc' ps)"

definition new_wrapper :: "string option \<Rightarrow> wrapper \<times> rat option" where
  \<comment> \<open>the fields as \<^verbatim>\<open>__init__\<close> leaves them, when the watcher thread starts\<close>
  "new_wrapper f =
     (\<lparr>yaml_file = f, rules = VNone, last_modified_time = None, wlog = []\<rparr>, None)"

section \<open>Message intake: \<^verbatim>\<open>MQTTInterface.on_message\<close>\<close>

text \<open>\<^verbatim>\<open>bytes.decode()\<close>: strict UTF-8. The text keeps its bytes, so decoding checks that
  they are well-formed and changes nothing.\<close>

definition cont :: "nat \<Rightarrow> bool" where
  "cont b = (128 \<le> b \<and> b \<le> 191)"

fun utf8_valid :: "nat list \<Rightarrow> bool" where
  "utf8_valid [] = True"
| "utf8_valid (b # bs) =
     (if b < 128 then utf8_valid bs
      else if 194 \<le> b \<and> b \<le> 223 then
        (case bs of c1 # r \<Rightarrow> cont c1 \<and> utf8_valid r | _ \<Rightarrow> False)
      else if b = 224 then
        (case bs of c1 # c2 # r \<Rightarrow> 160 \<le> c1 \<and> c1 \<le> 191 \<and> cont c2 \<and> utf8_valid r | _ \<Rightarrow> False)
      else if (225 \<le> b \<and> b \<le> 236) \<or> b = 238 \<or> b = 239 then
        (case bs of c1 # c2 # r \<Rightarrow> cont c1 \<and> cont c2 \<and> utf8_valid r | _ \<Rightarrow> False)
      else if b = 237 then
        (case bs of c1 # c2 # r \<Rightarrow> 128 \<le> c1 \<and> c1 \<le> 159 \<and> cont c2 \<and> utf8_valid r | _ \<Rightarrow> False)
      else if b = 240 then
        (case bs of c1 # c2 # c3 # r \<Rightarrow>
           144 \<le> c1 \<and> c1 \<le> 191 \<and> cont c2 \<and> cont c3 \<and> utf8_valid r | _ \<Rightarrow> False)
      else if 241 \<le> b \<and> b \<le> 243 then
        (case bs of c1 # c2 # c3 # r \<Rightarrow> cont c1 \<and> cont c2 \<and> cont c3 \<and> utf8_valid r | _ \<Rightarrow> False)
      else if b = 244 then
        (case bs of c1 # c2 # c3 # r \<Rightarrow>
           128 \<le> c1 \<and> c1 \<le> 143 \<and> cont c2 \<and> cont c3 \<and> utf8_valid r | _ \<Rightarrow> False)
      else False)"

definition decode :: "string \<Rightarrow> error + string" where
  "decode bs = (if utf8_valid (map code bs) then Inr bs else Inl UnicodeDecodeError)"

text \<open>
  The fields of the \<^verbatim>\<open>MQTTInterface\<close> that \<^verbatim>\<open>on_message\<close> touches. The two queues are
  lists with the oldest element first. \<open>rule_engine\<close> is \<open>None\<close> when the interface has
  no engine and otherwise holds the engine's \<^verbatim>\<open>self.rules\<close> at the time of the call.
\<close>

record hub =
  messages :: "(string \<times> string) list"
  publish_queue :: "(pyval \<times> string) list"
  db_queue :: "(string \<times> string) list"
  topic_ping :: string
  rule_engine :: "pyval option"
  hlog :: "log_entry list"

record mqtt_message =
  topic :: string
  payload :: string

fun enqueue_actions ::
  "runtime \<Rightarrow> pyval list \<Rightarrow> (pyval \<times> string) list \<Rightarrow> (pyval \<times> string) list \<times> error option"
where
  \<comment> \<open>\<^verbatim>\<open>for action in actions\<close>: coerce the action and queue its publish\<close>
  "enqueue_actions rt [] q = (q, None)"
| "enqueue_actions rt (action # rest) q =
     (case get_var rt action of
        Inl e \<Rightarrow> (q, Some e)
      | Inr action_dict \<Rightarrow>
          (case getitem_str action_dict ''topic'' of
             Inl e \<Rightarrow> (q, Some e)
           | Inr t \<Rightarrow>
               (case getitem_str action_dict ''params'' of
                  Inl e \<Rightarrow> (q, Some e)
                | Inr ps \<Rightarrow>
                    enqueue_actions rt rest
                      (q @ [(t, replace (CHR 0x27) (CHR 0x22) (py_str rt ps))]))))"

definition process_rules :: "runtime \<Rightarrow> hub \<Rightarrow> string \<Rightarrow> hub \<times> error option" where
  \<comment> \<open>the block under \<^verbatim>\<open>if self.rule_engine is not None\<close>\<close>
  "process_rules rt st tp =
     (case rule_engine st of
        None \<Rightarrow> (st, None)
      | Some rs \<Rightarrow>
          (let (actions, lg) = evaluate_rules rt rs (messages st) tp;
               (q, err) = enqueue_actions rt actions (publish_queue st)
           in (st\<lparr>publish_queue := q, hlog := hlog st @ lg\<rparr>, err)))"

definition register_ping :: "runtime \<Rightarrow> string \<Rightarrow> hub \<Rightarrow> string \<Rightarrow> hub \<times> error option" where
  \<comment> \<open>the last four statements of the handler; \<open>now\<close> is the formatted
      \<^verbatim>\<open>datetime.datetime.now()\<close>\<close>
  "register_ping rt now st tp =
     (let st1 = (if map_of (messages st) (topic_ping st) = None
                 then st\<lparr>messages := AList.update (topic_ping st) ''{}'' (messages st)\<rparr>
                 else st)
      in case map_of (messages st1) (topic_ping st1) of
           None \<Rightarrow> (st1, Some KeyError)
         | Some txt \<Rightarrow>
             (case literal_eval rt (VStr txt) of
                Inl e \<Rightarrow> (st1, Some e)
              | Inr ping_dict \<Rightarrow>
                  (case setitem_str ping_dict (rsplit1_head tp) (VStr now) of
                     Inl e \<Rightarrow> (st1, Some e)
                   | Inr ping_dict' \<Rightarrow>
                       (st1\<lparr>publish_queue :=
                              publish_queue st1 @ [(VStr (topic_ping st1), py_str rt ping_dict')]\<rparr>,
                        None))))"

definition on_message_try ::
  "runtime \<Rightarrow> string \<Rightarrow> hub \<Rightarrow> string \<Rightarrow> string \<Rightarrow> hub \<times> error option"
where
  \<comment> \<open>the \<^verbatim>\<open>try\<close> block after the payload is decoded, with the exception that leaves it\<close>
  "on_message_try rt now st tp pl =
     (if \<not> startswith tp ''/'' then (st, None)
      else if map_of (messages st) tp = None \<or> map_of (messages st) tp \<noteq> Some pl then
        (let st1 = st\<lparr>messages := AList.update tp pl (messages st)\<rparr> in
         case process_rules rt st1 tp of
           (st2, Some e) \<Rightarrow> (st2, Some e)
         | (st2, None) \<Rightarrow>
             if \<not> startswith tp ''/global/''
             then register_ping rt now (st2\<lparr>db_queue := db_queue st2 @ [(tp, pl)]\<rparr>) tp
             else (st2, None))
      else (st, None))"

definition on_message :: "runtime \<Rightarrow> string \<Rightarrow> hub \<Rightarrow> mqtt_message \<Rightarrow> hub \<times> error option" where
  \<comment> \<open>The second component is the exception that leaves \<^verbatim>\<open>on_message\<close>. The handler
      prints \<^verbatim>\<open>payload\<close>, which is unbound when \<^verbatim>\<open>decode\<close> was what raised.\<close>
  "on_message rt now st msg =
     (case decode (payload msg) of
        Inl e \<Rightarrow> (st, Some UnboundLocalError)
      | Inr pl \<Rightarrow> (fst (on_message_try rt now st (topic msg) pl), None))"

section \<open>A sample run-time system\<close>

text \<open>
  To run the model on examples the three library functions need values. The sample
  \<^verbatim>\<open>literal_eval\<close> knows the answers of the interpreter on the few texts that the
  examples use; the sample rule engine evaluates rules of the two shapes
  \<^verbatim>\<open>name == number\<close> and \<^verbatim>\<open>name > number\<close>; the sample \<^verbatim>\<open>str\<close> prints values the way
  \<^verbatim>\<open>repr\<close> does (a \<^verbatim>\<open>float\<close> is printed only when it is a whole number or special); of
  the text outside ASCII the sample \<^verbatim>\<open>int\<close> and \<^verbatim>\<open>float\<close> know a no-break space before
  \<^verbatim>\<open>5\<close> and \<^verbatim>\<open>5.0\<close>.
\<close>

definition sample_literal_eval :: "string \<Rightarrow> error + pyval" where
  "sample_literal_eval s =
     (let t = dropWhile (\<lambda>c. c = CHR '' '' \<or> c = CHR 0x09) s in
      if t = ''{}'' then Inr (VDict [])
      else if t = ''{'a': 1}'' then Inr (VDict [(VStr ''a'', VInt 1)])
      else if t = ''{'topic': '/x/y/z', 'params': {'on': True}}''
        then Inr (VDict [(VStr ''topic'', VStr ''/x/y/z''),
                         (VStr ''params'', VDict [(VStr ''on'', VBool True)])])
      else if t = ''{[1]: 2}'' then Inl TypeError
      else if t = [] then Inl SyntaxError
      else Inl ValueError)"

fun tokens :: "string \<Rightarrow> string \<Rightarrow> string list" where
  \<comment> \<open>the words between single spaces\<close>
  "tokens acc [] = [rev acc]"
| "tokens acc (c # cs) = (if c = CHR '' '' then rev acc # tokens [] cs else tokens (c # acc) cs)"

definition sample_matches :: "string \<Rightarrow> (string \<times> pyval) list \<Rightarrow> error + bool" where
  "sample_matches rule_str data =
     (case tokens [] rule_str of
        [x, opr, n] \<Rightarrow>
          (case ascii_int n of
             None \<Rightarrow> Inl RuleSyntaxError
           | Some k \<Rightarrow>
               if opr = ''=='' then
                 (case map_of data x of
                    None \<Rightarrow> Inl SymbolResolutionError
                  | Some v \<Rightarrow> Inr (v = VInt k))
               else if opr = ''>'' then
                 (case map_of data x of
                    None \<Rightarrow> Inl SymbolResolutionError
                  | Some (VInt j) \<Rightarrow> Inr (j > k)
                  | Some v \<Rightarrow> Inl EvaluationError)
               else Inl RuleSyntaxError)
      | _ \<Rightarrow> Inl RuleSyntaxError)"

fun join :: "string \<Rightarrow> string list \<Rightarrow> string" where
  "join sep [] = []"
| "join sep [x] = x"
| "join sep (x # y # ys) = x @ sep @ join sep (y # ys)"

fun show_nat :: "nat \<Rightarrow> string" where
  "show_nat n =
     (if n < 10 then [char_of (48 + n)]
      else show_nat (n div 10) @ [char_of (48 + n mod 10)])"

definition show_int :: "int \<Rightarrow> string" where
  "show_int n = (if n < 0 then ''-'' @ show_nat (nat (- n)) else show_nat (nat n))"

definition show_float :: "pyfloat \<Rightarrow> string" where
  "show_float x =
     (case x of
        NaN \<Rightarrow> ''nan''
      | Infinite neg \<Rightarrow> (if neg then ''-inf'' else ''inf'')
      | Finite r \<Rightarrow> (if of_int \<lfloor>r\<rfloor> = r then show_int \<lfloor>r\<rfloor> @ ''.0'' else ''?''))"

fun sample_repr :: "pyval \<Rightarrow> string" where
  "sample_repr VNone = ''None''"
| "sample_repr (VBool b) = (if b then ''True'' else ''False'')"
| "sample_repr (VInt n) = show_int n"
| "sample_repr (VFloat x) = show_float x"
| "sample_repr (VStr s) = [CHR 0x27] @ s @ [CHR 0x27]"
| "sample_repr (VList xs) = ''['' @ join '', '' (map sample_repr xs) @ '']''"
| "sample_repr (VTuple xs) = ''('' @ join '', '' (map sample_repr xs) @ '')''"
| "sample_repr (VDict kvs) =
     ''{'' @ join '', '' (map (\<lambda>kv. sample_repr (fst kv) @ '': '' @ sample_repr (snd kv)) kvs) @ ''}''"

definition sample_str :: "pyval \<Rightarrow> string" where
  \<comment> \<open>\<^verbatim>\<open>str\<close> of a string is the string itself; of any other value, its \<^verbatim>\<open>repr\<close>\<close>
  "sample_str v = (case v of VStr s \<Rightarrow> s | _ \<Rightarrow> sample_repr v)"

definition nbsp :: string where
  \<comment> \<open>the no-break space U+00A0, in UTF-8\<close>
  "nbsp = [char_of (194 :: nat), char_of (160 :: nat)]"

definition sample_int_unicode :: "string \<Rightarrow> int option" where
  "sample_int_unicode s = (if s = nbsp @ ''5'' then Some 5 else None)"

definition sample_float_unicode :: "string \<Rightarrow> pyfloat option" where
  "sample_float_unicode s =
     (if s = nbsp @ ''5'' \<or> s = nbsp @ ''5.0'' then Some (Finite 5) else None)"

definition sample_rt :: runtime where
  "sample_rt =
     \<lparr>literal_eval_str = sample_literal_eval, rule_matches = sample_matches,
      py_str = sample_str, int_unicode = sample_int_unicode,
      float_unicode = sample_float_unicode\<rparr>"

definition sample_rule :: pyval where
  "sample_rule =
     VDict [(VStr ''rule'', VStr ''/a/b/c == 5''),
            (VStr ''actions'', VList [VStr ''{'topic': '/x/y/z', 'params': {'on': True}}''])]"

definition poll_ok :: poll where
  \<comment> \<open>the rule file is read and parsed\<close>
  "poll_ok = \<lparr>getmtime = Inr 1, safe_load = Inr (VDict [(VStr ''rules'', VList [sample_rule])])\<rparr>"

definition poll_bad :: poll where
  \<comment> \<open>the rule file has been edited and no longer parses\<close>
  "poll_bad = \<lparr>getmtime = Inr 2, safe_load = Inl YAMLError\<rparr>"

definition poll_empty :: poll where
  \<comment> \<open>the rule file has been emptied: \<^verbatim>\<open>yaml.safe_load\<close> gives \<^verbatim>\<open>None\<close>\<close>
  "poll_empty = \<lparr>getmtime = Inr 2, safe_load = Inr VNone\<rparr>"

definition poll_rules_5 :: poll where
  \<comment> \<open>the rule file now reads \<^verbatim>\<open>rules: 5\<close>\<close>
  "poll_rules_5 = \<lparr>getmtime = Inr 2, safe_load = Inr (VDict [(VStr ''rules'', VInt 5)])\<rparr>"

definition loaded_wrapper :: wrapper where
  \<comment> \<open>the wrapper after \<open>poll_ok\<close>\<close>
  "loaded_wrapper =
     \<lparr>yaml_file = Some ''rules.yaml'', rules = VList [sample_rule],
      last_modified_time = Some 1, wlog = [LogReloading, LogRulesLoaded]\<rparr>"

definition sample_data :: "(string \<times> string) list" where
  "sample_data = [(''/a/b/c'', ''5''), (''/a/b/s'', ''on'')]"

definition rule_unknown_topic :: pyval where
  "rule_unknown_topic =
     VDict [(VStr ''rule'', VStr ''/k/l/m == 1''),
            (VStr ''actions'', VList [VStr ''{'topic': '/x/y/z', 'params': {'on': True}}''])]"

definition rule_type_error :: pyval where
  "rule_type_error =
     VDict [(VStr ''rule'', VStr ''/a/b/s > 1''),
            (VStr ''actions'', VList [VStr ''{'topic': '/x/y/z', 'params': {'on': True}}''])]"

definition sample_hub :: hub where
  "sample_hub =
     \<lparr>messages = [], publish_queue = [], db_queue = [], topic_ping = ''/global/ping/devices'',
      rule_engine = Some (VList [sample_rule]), hlog = []\<rparr>"

definition sample_now :: string where
  "sample_now = ''2024-01-01 00:00:00''"

definition sample_store :: hub where
  "sample_store = sample_hub\<lparr>messages := [(''/a/b/c'', ''5'')]\<rparr>"

section \<open>Type coercion\<close>

subsection \<open>Text that \<^verbatim>\<open>int\<close> accepts\<close>











subsection \<open>Text that \<^verbatim>\<open>float\<close> accepts\<close>






subsection \<open>Text that starts with a letter is no number\<close>








subsection \<open>The precedence of \<^verbatim>\<open>get_var\<close> on text\<close>









subsection \<open>Values that are already typed\<close>

text \<open>
  Claim C5. The claim is that no exception leaves \<^verbatim>\<open>get_var\<close> and that a value which is
  already typed passes through unchanged. \<^verbatim>\<open>_is_bool\<close> and \<^verbatim>\<open>_is_dict\<close> accept a
  \<^verbatim>\<open>bool\<close> and a \<^verbatim>\<open>dict\<close>, and \<^verbatim>\<open>get_var\<close> then calls \<^verbatim>\<open>s.lower()\<close> on the \<^verbatim>\<open>bool\<close> and
  \<^verbatim>\<open>ast.literal_eval(s)\<close> on the \<^verbatim>\<open>dict\<close>: the first raises \<^verbatim>\<open>AttributeError\<close>, the second
  \<^verbatim>\<open>ValueError\<close>, whatever the run-time system.
\<close>

theorem get_var_typed_input_raises:
  "get_var rt (VBool True) = Inl AttributeError
   \<and> get_var rt (VDict [(VStr ''topic'', VStr ''/x/y/z''),
                        (VStr ''params'', VDict [(VStr ''on'', VBool True)])]) = Inl ValueError"
  by (simp add: get_var_def is_int_def is_float_def is_bool_def is_dict_def lower_of_def
        literal_eval_def)

text \<open>What does hold: an \<^verbatim>\<open>int\<close> and a \<^verbatim>\<open>float\<close> pass through, and on text nothing is
  raised as long as \<^verbatim>\<open>ast.literal_eval\<close> raises nothing but the two caught exceptions.\<close>

lemma get_var_int_float_unchanged:
  "get_var rt (VInt n) = Inr (VInt n)" "get_var rt (VFloat x) = Inr (VFloat x)"
  by (simp_all add: get_var_def is_int_def is_float_def py_int_of_def py_float_of_def)

lemma is_int_py_int: "is_int rt (VStr s) \<Longrightarrow> \<exists>n. py_int rt s = Some n"
  by (auto simp: is_int_def split: if_splits option.splits)

lemma is_float_py_float: "is_float rt (VStr s) \<Longrightarrow> \<exists>x. py_float rt s = Some x"
  by (auto simp: is_float_def split: if_splits option.splits)

lemma get_var_str_returns:
  assumes "\<And>e. literal_eval_str rt s = Inl e \<Longrightarrow> e = ValueError \<or> e = SyntaxError"
  shows "\<exists>v. get_var rt (VStr s) = Inr v"
proof -
  consider "is_int rt (VStr s)" | "\<not> is_int rt (VStr s)" "is_float rt (VStr s)"
    | "\<not> is_int rt (VStr s)" "\<not> is_float rt (VStr s)" "is_bool (VStr s)"
    | "\<not> is_int rt (VStr s)" "\<not> is_float rt (VStr s)" "\<not> is_bool (VStr s)"
    by blast
  then show ?thesis
  proof cases
    case 1
    then show ?thesis using is_int_py_int [of rt s] by (auto simp: get_var_def py_int_of_def)
  next
    case 2
    then show ?thesis
      using is_float_py_float [of rt s] by (auto simp: get_var_def py_float_of_def)
  next
    case 3
    then show ?thesis by (simp add: get_var_def lower_of_def)
  next
    case 4
    then show ?thesis using assms
      by (cases "literal_eval_str rt s")
         (auto simp: get_var_def is_dict_def literal_eval_def)
  qed
qed

section \<open>Rule evaluation\<close>

subsection \<open>The loop over the rules\<close>

lemma rules_loop_acc:
  "rules_loop rt pd flt rs (out, lg) =
     (case rules_loop rt pd flt rs ([], []) of ((o', l'), e) \<Rightarrow> ((out @ o', lg @ l'), e))"
proof (induction rs arbitrary: out lg)
  case Nil
  then show ?case by simp
next
  case (Cons r rs)
  obtain acts ls e where b: "rule_body rt pd flt r = ((acts, ls), e)"
    by (metis surj_pair)
  show ?case
  proof (cases e)
    case None
    show ?thesis
      using Cons [of "out @ acts" "lg @ ls"] Cons [of acts ls] b None
      by (simp split: prod.splits)
  next
    case (Some x)
    then show ?thesis using b by simp
  qed
qed

lemma rules_loop_append:
  "rules_loop rt pd flt (xs @ ys) acc =
     (case rules_loop rt pd flt xs acc of
        (acc', Some e) \<Rightarrow> (acc', Some e)
      | (acc', None) \<Rightarrow> rules_loop rt pd flt ys acc')"
proof (induction xs arbitrary: acc)
  case Nil
  then show ?case by (cases acc) simp
next
  case (Cons r rs)
  obtain out lg where acc: "acc = (out, lg)" by (cases acc)
  obtain acts ls e where b: "rule_body rt pd flt r = ((acts, ls), e)"
    by (metis surj_pair)
  show ?case unfolding acc using b Cons by (cases e) simp_all
qed

lemma rule_body_error_no_actions:
  "rule_body rt pd flt r = ((acts, ls), Some e) \<Longrightarrow> acts = []"
  by (auto simp: rule_body_def split: sum.splits if_splits bool.splits)

lemma rule_body_failed:
  assumes "getitem_str r ''rule'' = Inr (VStr s)" and "getitem_str r ''actions'' = Inr a"
      and "rule_matches rt (preprocess_rule s) pd = Inl e"
      and "e = RuleSyntaxError \<or> e = SymbolResolutionError"
  shows "rule_body rt pd flt r =
     (([], if contains (preprocess_rule s) (preprocess_rule flt)
           then [LogRule (preprocess_rule s),
                 if e = RuleSyntaxError then LogSyntaxError (preprocess_rule s) else LogNotFound]
           else []), None)"
  using assms by (auto simp: rule_body_def preprocess_rule_of_def)

lemma rules_loop_skip:
  assumes "rule_body rt pd flt r = (([], ls), None)"
  shows "fst (fst (rules_loop rt pd flt (rs1 @ r # rs2) acc))
           = fst (fst (rules_loop rt pd flt (rs1 @ rs2) acc))"
proof -
  obtain o1 l1 e1 where l: "rules_loop rt pd flt rs1 acc = ((o1, l1), e1)"
    by (metis surj_pair)
  show ?thesis
  proof (cases e1)
    case None
    have "fst (fst (rules_loop rt pd flt rs2 (o1, l1 @ ls)))
            = fst (fst (rules_loop rt pd flt rs2 (o1, l1)))"
      by (subst rules_loop_acc, subst (2) rules_loop_acc) (simp split: prod.splits)
    then show ?thesis using l None assms by (simp add: rules_loop_append)
  next
    case (Some x)
    then show ?thesis using l by (simp add: rules_loop_append)
  qed
qed

lemma evaluate_rules_VList:
  "evaluate_rules rt (VList rs) data flt =
     (case preprocess_data rt data of
        Inl e \<Rightarrow> ([], [LogData, LogUnexpected e])
      | Inr pd \<Rightarrow>
          (case rules_loop rt pd flt rs ([], []) of
             ((out, lg), None) \<Rightarrow> (out, LogData # lg)
           | ((out, lg), Some e) \<Rightarrow> (out, LogData # lg @ [LogUnexpected e])))"
  by (simp add: evaluate_rules_def evaluate_try_def py_iter_def split: sum.splits)

lemma fst_evaluate_rules_VList:
  "fst (evaluate_rules rt (VList rs) data flt) =
     (case preprocess_data rt data of
        Inl e \<Rightarrow> []
      | Inr pd \<Rightarrow> fst (fst (rules_loop rt pd flt rs ([], []))))"
  by (simp add: evaluate_rules_VList split: sum.splits prod.splits option.splits)

lemma contains_empty: "contains s []"
  by (cases s) (simp_all add: startswith_def)

lemma rule_body_filtered:
  assumes "getitem_str r ''rule'' = Inr (VStr s)" and "getitem_str r ''actions'' = Inr a"
      and "\<not> contains (preprocess_rule s) (preprocess_rule flt)"
  shows "rule_body rt pd flt r = (([], []), None)"
  using assms by (simp add: rule_body_def preprocess_rule_of_def)

lemma rules_loop_drop:
  assumes "rule_body rt pd flt r = (([], []), None)"
  shows "rules_loop rt pd flt (rs1 @ r # rs2) acc = rules_loop rt pd flt (rs1 @ rs2) acc"
proof -
  have "rules_loop rt pd flt (r # rs2) acc' = rules_loop rt pd flt rs2 acc'" for acc'
    using assms by (cases acc') simp
  then show ?thesis by (simp add: rules_loop_append split: prod.splits option.splits)
qed

lemma rule_body_logs_evaluation:
  assumes "getitem_str r ''rule'' = Inr (VStr s)" and "getitem_str r ''actions'' = Inr a"
      and "contains (preprocess_rule s) (preprocess_rule flt)"
  shows "LogRule (preprocess_rule s) \<in> set (snd (fst (rule_body rt pd flt r)))"
  using assms
  by (auto simp: rule_body_def preprocess_rule_of_def split: sum.splits bool.splits)

lemma sample_pd: "preprocess_data sample_rt sample_data = Inr [(''_a_b_c'', VInt 5), (''_a_b_s'', VStr ''on'')]"
  by code_simp

subsection \<open>A rule that fails is skipped\<close>

text \<open>
  Claim C3. A rule whose expression has a syntax error, or names a topic that the snapshot
  lacks, adds no action and does not stop the pass: the loop goes on with the rules after
  it and the output it had, having logged the failure, and the pass returns what it would
  return without that rule.
\<close>

theorem failing_rule_is_skipped:
  assumes "getitem_str r ''rule'' = Inr (VStr s)" and "getitem_str r ''actions'' = Inr a"
      and "preprocess_data rt data = Inr pd"
      and "rule_matches rt (preprocess_rule s) pd = Inl e"
      and "e = RuleSyntaxError \<or> e = SymbolResolutionError"
  shows "rules_loop rt pd flt (r # rs2) (out, lg) =
           rules_loop rt pd flt rs2
             (out, lg @ (if contains (preprocess_rule s) (preprocess_rule flt)
                         then [LogRule (preprocess_rule s),
                               if e = RuleSyntaxError then LogSyntaxError (preprocess_rule s)
                               else LogNotFound]
                         else []))
       \<and> fst (evaluate_rules rt (VList (rs1 @ r # rs2)) data flt)
           = fst (evaluate_rules rt (VList (rs1 @ rs2)) data flt)"
proof -
  note b = rule_body_failed [OF assms(1,2,4,5), of flt]
  have "fst (fst (rules_loop rt pd flt (rs1 @ r # rs2) ([], [])))
          = fst (fst (rules_loop rt pd flt (rs1 @ rs2) ([], [])))"
    by (rule rules_loop_skip [OF b])
  then show ?thesis using b assms(3) by (simp add: fst_evaluate_rules_VList)
qed

theorem failing_rule_is_skipped_witness:
  "rules_loop sample_rt [(''_a_b_c'', VInt 5), (''_a_b_s'', VStr ''on'')] '''' [rule_unknown_topic, sample_rule] ([], [])
     = rules_loop sample_rt [(''_a_b_c'', VInt 5), (''_a_b_s'', VStr ''on'')] '''' [sample_rule]
         ([], [LogRule ''_k_l_m == 1'', LogNotFound])
   \<and> fst (evaluate_rules sample_rt (VList [rule_unknown_topic, sample_rule]) sample_data '''')
       = fst (evaluate_rules sample_rt (VList [sample_rule]) sample_data '''')
   \<and> fst (evaluate_rules sample_rt (VList [sample_rule]) sample_data '''')
       = [VStr ''{'topic': '/x/y/z', 'params': {'on': True}}'']"
proof -
  have a: "getitem_str rule_unknown_topic ''rule'' = Inr (VStr ''/k/l/m == 1'')" by code_simp
  have b: "getitem_str rule_unknown_topic ''actions''
             = Inr (VList [VStr ''{'topic': '/x/y/z', 'params': {'on': True}}''])" by code_simp
  have c: "rule_matches sample_rt (preprocess_rule ''/k/l/m == 1'')
             [(''_a_b_c'', VInt 5), (''_a_b_s'', VStr ''on'')] = Inl SymbolResolutionError"
    by code_simp
  have d: "SymbolResolutionError = RuleSyntaxError \<or> SymbolResolutionError = SymbolResolutionError"
    by simp
  have e: "preprocess_rule ''/k/l/m == 1'' = ''_k_l_m == 1''" by code_simp
  have f: "fst (evaluate_rules sample_rt (VList [sample_rule]) sample_data '''')
       = [VStr ''{'topic': '/x/y/z', 'params': {'on': True}}'']" by code_simp
  from failing_rule_is_skipped [OF a b sample_pd c d, of "''''" "[sample_rule]" "[]" "[]" "[]"] e f
  show ?thesis by (simp add: preprocess_rule_def replace_def)
qed

subsection \<open>The filter\<close>

text \<open>
  Claim C6. When the filter, with its slashes replaced, is not a substring of the rule's
  text, with its slashes replaced, the rule is not handed to the rule engine: its turn of
  the loop logs nothing and adds nothing, whatever the engine would answer, and the pass is
  the pass without that rule. Such a filter is never empty: the empty filter is a
  substring of every text, and with it every well-formed rule is evaluated.
\<close>

theorem filtered_rule_not_evaluated:
  assumes "getitem_str r ''rule'' = Inr (VStr s)" and "getitem_str r ''actions'' = Inr a"
  shows "(\<not> contains (preprocess_rule s) (preprocess_rule flt) \<longrightarrow>
            flt \<noteq> []
          \<and> rule_body rt pd flt r = (([], []), None)
          \<and> evaluate_rules rt (VList (rs1 @ r # rs2)) data flt
              = evaluate_rules rt (VList (rs1 @ rs2)) data flt)
       \<and> contains (preprocess_rule s) (preprocess_rule [])
       \<and> LogRule (preprocess_rule s) \<in> set (snd (fst (rule_body rt pd [] r)))"
proof -
  have e: "contains (preprocess_rule s) (preprocess_rule [])"
    by (simp add: preprocess_rule_def replace_def contains_empty)
  have "flt \<noteq> [] \<and> rule_body rt pd flt r = (([], []), None)
        \<and> evaluate_rules rt (VList (rs1 @ r # rs2)) data flt
            = evaluate_rules rt (VList (rs1 @ rs2)) data flt"
    if n: "\<not> contains (preprocess_rule s) (preprocess_rule flt)"
  proof -
    have b: "rule_body rt pd' flt r = (([], []), None)" for pd'
      by (rule rule_body_filtered [OF assms n])
    have "flt \<noteq> []" using n e by auto
    moreover have "evaluate_rules rt (VList (rs1 @ r # rs2)) data flt
            = evaluate_rules rt (VList (rs1 @ rs2)) data flt"
      by (simp add: evaluate_rules_VList rules_loop_drop [OF b] split: sum.splits)
    ultimately show ?thesis using b by simp
  qed
  then show ?thesis
    using e rule_body_logs_evaluation [OF assms e] by blast
qed

theorem filtered_rule_not_evaluated_witness:
  "\<not> contains (preprocess_rule ''/a/b/c == 5'') (preprocess_rule ''/a/b/s'')
   \<and> rule_body sample_rt [(''_a_b_c'', VInt 5), (''_a_b_s'', VStr ''on'')] ''/a/b/s'' sample_rule
       = (([], []), None)
   \<and> evaluate_rules sample_rt (VList [sample_rule]) sample_data ''/a/b/s''
       = evaluate_rules sample_rt (VList []) sample_data ''/a/b/s''
   \<and> evaluate_rules sample_rt (VList []) sample_data ''/a/b/s'' = ([], [LogData])
   \<and> LogRule ''_a_b_c == 5''
        \<in> set (snd (fst (rule_body sample_rt [(''_a_b_c'', VInt 5), (''_a_b_s'', VStr ''on'')] [] sample_rule)))"
proof -
  have a: "getitem_str sample_rule ''rule'' = Inr (VStr ''/a/b/c == 5'')" by code_simp
  have b: "getitem_str sample_rule ''actions''
             = Inr (VList [VStr ''{'topic': '/x/y/z', 'params': {'on': True}}''])" by code_simp
  have n: "\<not> contains (preprocess_rule ''/a/b/c == 5'') (preprocess_rule ''/a/b/s'')"
    by code_simp
  have e: "preprocess_rule ''/a/b/c == 5'' = ''_a_b_c == 5''" by code_simp
  have v: "evaluate_rules sample_rt (VList []) sample_data ''/a/b/s'' = ([], [LogData])"
    by code_simp
  from filtered_rule_not_evaluated
         [OF a b, of "''/a/b/s''" sample_rt "[(''_a_b_c'', VInt 5), (''_a_b_s'', VStr ''on'')]"
            "[]" "[]" sample_data] n e v
  show ?thesis by simp
qed

subsection \<open>An unexpected failure ends the pass\<close>

text \<open>
  Claim C7. \<^verbatim>\<open>evaluate_rules\<close> returns a list whatever happens inside its \<^verbatim>\<open>try\<close>: when a
  rule's turn ends with an exception that the two inner handlers do not catch, the pass
  stops and the call returns the actions that the rules before it had collected, in order.
  With \<^verbatim>\<open>self.rules\<close> \<^verbatim>\<open>None\<close>, or the empty list, it returns the empty list.
\<close>

theorem evaluate_rules_returns_collected:
  assumes "preprocess_data rt data = Inr pd"
      and "rules_loop rt pd flt rs1 ([], []) = ((out1, lg1), None)"
      and "rule_body rt pd flt r = ((acts, ls), Some e)"
  shows "evaluate_rules rt (VList (rs1 @ r # rs2)) data flt
           = (out1, LogData # lg1 @ ls @ [LogUnexpected e])
       \<and> out1 = fst (evaluate_rules rt (VList rs1) data flt)
       \<and> fst (evaluate_rules rt rs data flt)
           = (if rs = VNone then [] else fst (fst (evaluate_try rt rs data flt)))
       \<and> evaluate_rules rt VNone data flt = ([], [LogData])
       \<and> fst (evaluate_rules rt (VList []) data flt) = []"
proof -
  have acts: "acts = []" using assms(3) by (rule rule_body_error_no_actions)
  have "rules_loop rt pd flt (r # rs2) (out1, lg1) = ((out1, lg1 @ ls), Some e)"
    using assms(3) acts by simp
  then have "rules_loop rt pd flt (rs1 @ r # rs2) ([], []) = ((out1, lg1 @ ls), Some e)"
    using assms(2) by (simp add: rules_loop_append)
  then have 1: "evaluate_rules rt (VList (rs1 @ r # rs2)) data flt
           = (out1, LogData # lg1 @ ls @ [LogUnexpected e])"
    using assms(1) by (simp add: evaluate_rules_VList)
  have 2: "out1 = fst (evaluate_rules rt (VList rs1) data flt)"
    using assms(1,2) by (simp add: fst_evaluate_rules_VList)
  have 3: "fst (evaluate_rules rt rs data flt)
           = (if rs = VNone then [] else fst (fst (evaluate_try rt rs data flt)))"
    by (simp add: evaluate_rules_def split: prod.splits option.splits)
  have 4: "evaluate_rules rt VNone data flt = ([], [LogData])"
    by (simp add: evaluate_rules_def)
  have 5: "fst (evaluate_rules rt (VList []) data flt) = []"
    by (simp add: fst_evaluate_rules_VList split: sum.splits)
  show ?thesis using 1 2 3 4 5 by blast
qed

theorem evaluate_rules_returns_collected_witness:
  "evaluate_rules sample_rt (VList [sample_rule, rule_type_error, sample_rule]) sample_data ''''
     = ([VStr ''{'topic': '/x/y/z', 'params': {'on': True}}''],
        [LogData, LogRule ''_a_b_c == 5'', LogRule ''_a_b_s > 1'', LogUnexpected EvaluationError])
   \<and> [VStr ''{'topic': '/x/y/z', 'params': {'on': True}}'']
       = fst (evaluate_rules sample_rt (VList [sample_rule]) sample_data '''')"
proof -
  have b: "rules_loop sample_rt [(''_a_b_c'', VInt 5), (''_a_b_s'', VStr ''on'')] '''' [sample_rule] ([], [])
             = (([VStr ''{'topic': '/x/y/z', 'params': {'on': True}}''], [LogRule ''_a_b_c == 5'']), None)"
    by code_simp
  have c: "rule_body sample_rt [(''_a_b_c'', VInt 5), (''_a_b_s'', VStr ''on'')] '''' rule_type_error
             = (([], [LogRule ''_a_b_s > 1'']), Some EvaluationError)"
    by code_simp
  from evaluate_rules_returns_collected [OF sample_pd b c, of "[sample_rule]" VNone]
  show ?thesis by simp
qed

section \<open>Hot reload\<close>

text \<open>What \<^verbatim>\<open>load_rules\<close> returns when it has logged an exception: \<^verbatim>\<open>None\<close> when the
  exception came before \<^verbatim>\<open>rules\<close> was assigned, and the value under \<^verbatim>\<open>'rules'\<close> when it
  came from the loop over it. Either way the value cannot be iterated.\<close>

lemma load_rules_result:
  "fst (load_rules w p) =
     (case yaml_file w of
        None \<Rightarrow> VNone
      | Some f \<Rightarrow>
          (case safe_load p of
             Inl e \<Rightarrow> VNone
           | Inr doc \<Rightarrow> (case getitem_str doc ''rules'' of Inl e \<Rightarrow> VNone | Inr rs \<Rightarrow> rs)))"
  by (simp add: load_rules_def split: option.splits sum.splits)

lemma load_rules_failed:
  assumes "LogException e \<in> set (snd (load_rules w p))"
  shows "\<exists>e'. py_iter (fst (load_rules w p)) = Inl e'"
  using assms
  by (auto simp: load_rules_def py_iter_def split: option.splits sum.splits)

lemma evaluate_rules_not_iterable:
  assumes "py_iter rs = Inl e"
  shows "fst (evaluate_rules rt rs data flt) = []"
  using assms
  by (simp add: evaluate_rules_def evaluate_try_def split: sum.splits)

text \<open>
  Claim C2, as stated: after a first successful load, a reload that fails to parse leaves
  the previous rules in effect. It does not: \<^verbatim>\<open>load_rules\<close> returns \<^verbatim>\<open>None\<close> when the
  parse raises, and \<^verbatim>\<open>load_and_run\<close> assigns that to \<^verbatim>\<open>self.rules\<close>. Here the rule file
  loads at the first poll and is broken at the second.
\<close>

theorem reload_failure_counterexample:
  "rules (fst (fst (load_and_run (new_wrapper (Some ''rules.yaml'')) [poll_ok])))
     = VList [sample_rule]
   \<and> rules (fst (fst (load_and_run (new_wrapper (Some ''rules.yaml'')) [poll_ok, poll_bad])))
     = VNone"
  by (simp add: new_wrapper_def poll_ok_def poll_bad_def load_and_run_turn_def load_rules_def
        getitem_str_def py_iter_def Let_def)

text \<open>
  Claim C2, amended. When the modification time has changed and \<^verbatim>\<open>load_rules\<close> logs an
  exception, the turn records the new modification time and assigns to \<^verbatim>\<open>self.rules\<close>
  what \<^verbatim>\<open>load_rules\<close> returns, whatever \<^verbatim>\<open>self.rules\<close> held; the thread goes on. The value
  assigned is \<^verbatim>\<open>None\<close> when opening or parsing the file raises or the document has no
  \<^verbatim>\<open>'rules'\<close> entry to read, and otherwise it is the document's \<^verbatim>\<open>'rules'\<close> entry, which
  cannot be iterated. In both cases \<^verbatim>\<open>evaluate_rules\<close> returns the empty list.
\<close>

theorem reload_failure_drops_rules:
  assumes "yaml_file w = Some f" and "last_modified_time w = Some t0"
      and "getmtime p = Inr t" and "t \<noteq> t0"
      and "LogException e \<in> set (snd (load_rules w p))"
  shows "load_and_run_turn (w, c) p =
           ((w\<lparr>rules := fst (load_rules w p), last_modified_time := Some t,
                wlog := wlog w @ LogReloading # snd (load_rules w p)\<rparr>, Some t), None)
       \<and> fst (load_rules w p) =
           (case safe_load p of
              Inl e' \<Rightarrow> VNone
            | Inr doc \<Rightarrow> (case getitem_str doc ''rules'' of Inl e' \<Rightarrow> VNone | Inr rs \<Rightarrow> rs))
       \<and> (\<exists>e'. py_iter (fst (load_rules w p)) = Inl e')
       \<and> fst (evaluate_rules rt (fst (load_rules w p)) data flt) = []"
proof -
  have 1: "load_and_run_turn (w, c) p =
           ((w\<lparr>rules := fst (load_rules w p), last_modified_time := Some t,
                wlog := wlog w @ LogReloading # snd (load_rules w p)\<rparr>, Some t), None)"
    using assms(1-4) by (simp add: load_and_run_turn_def split: prod.splits)
  have 2: "fst (load_rules w p) =
           (case safe_load p of
              Inl e' \<Rightarrow> VNone
            | Inr doc \<Rightarrow> (case getitem_str doc ''rules'' of Inl e' \<Rightarrow> VNone | Inr rs \<Rightarrow> rs))"
    using assms(1) by (simp add: load_rules_result)
  from load_rules_failed [OF assms(5)] obtain e' where
    3: "py_iter (fst (load_rules w p)) = Inl e'" ..
  have 4: "fst (evaluate_rules rt (fst (load_rules w p)) data flt) = []"
    using 3 by (rule evaluate_rules_not_iterable)
  show ?thesis using 1 2 3 4 by blast
qed

theorem reload_failure_drops_rules_witness:
  "rules (fst (fst (load_and_run_turn (loaded_wrapper, Some 1) poll_bad))) = VNone
   \<and> rules (fst (fst (load_and_run_turn (loaded_wrapper, Some 1) poll_empty))) = VNone
   \<and> rules (fst (fst (load_and_run_turn (loaded_wrapper, Some 1) poll_rules_5))) = VInt 5
   \<and> last_modified_time (fst (fst (load_and_run_turn (loaded_wrapper, Some 1) poll_rules_5)))
       = Some 2
   \<and> snd (load_and_run_turn (loaded_wrapper, Some 1) poll_rules_5) = None
   \<and> fst (evaluate_rules sample_rt (VInt 5) sample_data ''/a/b/c'') = []
   \<and> fst (evaluate_rules sample_rt VNone sample_data ''/a/b/c'') = []"
proof -
  have w: "yaml_file loaded_wrapper = Some ''rules.yaml''"
          "last_modified_time loaded_wrapper = Some 1"
    by (simp_all add: loaded_wrapper_def)
  have t: "getmtime poll_bad = Inr 2" "getmtime poll_empty = Inr 2"
          "getmtime poll_rules_5 = Inr 2" "(2 :: rat) \<noteq> 1"
    by (simp_all add: poll_bad_def poll_empty_def poll_rules_5_def)
  have a: "LogException YAMLError \<in> set (snd (load_rules loaded_wrapper poll_bad))"
    by code_simp
  have b: "LogException TypeError \<in> set (snd (load_rules loaded_wrapper poll_empty))"
    by code_simp
  have c: "LogException TypeError \<in> set (snd (load_rules loaded_wrapper poll_rules_5))"
    by code_simp
  have s: "safe_load poll_bad = Inl YAMLError" "safe_load poll_empty = Inr VNone"
          "safe_load poll_rules_5 = Inr (VDict [(VStr ''rules'', VInt 5)])"
          "getitem_str VNone ''rules'' = Inl TypeError"
          "getitem_str (VDict [(VStr ''rules'', VInt 5)]) ''rules'' = Inr (VInt 5)"
    by (simp_all add: poll_bad_def poll_empty_def poll_rules_5_def getitem_str_def)
  note x = reload_failure_drops_rules [OF w t(1) t(4) a, of "Some 1" sample_rt sample_data
             "''/a/b/c''"]
  note y = reload_failure_drops_rules [OF w t(2) t(4) b, of "Some 1" sample_rt sample_data
             "''/a/b/c''"]
  note z = reload_failure_drops_rules [OF w t(3) t(4) c, of "Some 1" sample_rt sample_data
             "''/a/b/c''"]
  have lx: "fst (load_rules loaded_wrapper poll_bad) = VNone"
    using x [THEN conjunct2, THEN conjunct1] s by simp
  have ly: "fst (load_rules loaded_wrapper poll_empty) = VNone"
    using y [THEN conjunct2, THEN conjunct1] s by simp
  have lz: "fst (load_rules loaded_wrapper poll_rules_5) = VInt 5"
    using z [THEN conjunct2, THEN conjunct1] s by simp
  note ex = x [THEN conjunct2, THEN conjunct2, THEN conjunct2, unfolded lx]
  note ez = z [THEN conjunct2, THEN conjunct2, THEN conjunct2, unfolded lz]
  show ?thesis
    by (simp add: x [THEN conjunct1] y [THEN conjunct1] z [THEN conjunct1] lx ly lz ex ez)
qed

section \<open>Message intake\<close>

subsection \<open>What each part of the handler leaves alone\<close>

lemma startswith_global_slash: "startswith tp ''/global/'' \<Longrightarrow> startswith tp ''/''"
  by (cases tp) (auto simp: startswith_def)

lemma decode_Inr: "decode bs = Inr pl \<Longrightarrow> pl = bs"
  by (auto simp: decode_def split: if_splits)

lemma process_rules_frame:
  "messages (fst (process_rules rt st tp)) = messages st"
  "db_queue (fst (process_rules rt st tp)) = db_queue st"
  "topic_ping (fst (process_rules rt st tp)) = topic_ping st"
  "rule_engine (fst (process_rules rt st tp)) = rule_engine st"
  by (simp_all add: process_rules_def split: option.splits prod.splits)

lemma map_of_update_absent:
  "map_of al k = None \<Longrightarrow> map_of (AList.update k v al) k' = (if k' = k then Some v else map_of al k')"
  by (simp add: update_conv')

lemma register_ping_messages:
  "messages (fst (register_ping rt now st tp)) =
     (if map_of (messages st) (topic_ping st) = None
      then AList.update (topic_ping st) ''{}'' (messages st) else messages st)"
  by (simp add: register_ping_def Let_def split: option.splits sum.splits)

lemma register_ping_frame:
  "db_queue (fst (register_ping rt now st tp)) = db_queue st"
  "topic_ping (fst (register_ping rt now st tp)) = topic_ping st"
  "hlog (fst (register_ping rt now st tp)) = hlog st"
  by (simp_all add: register_ping_def Let_def split: option.splits sum.splits)

lemma on_message_try_messages_at_topic:
  assumes "startswith tp ''/''" and "map_of (messages st) tp \<noteq> Some pl"
  shows "map_of (messages (fst (on_message_try rt now st tp pl))) tp = Some pl"
proof -
  let ?st1 = "st\<lparr>messages := AList.update tp pl (messages st)\<rparr>"
  obtain st2 e where p: "process_rules rt ?st1 tp = (st2, e)" by (metis surj_pair)
  have m2: "messages st2 = AList.update tp pl (messages st)"
    using process_rules_frame(1) [of rt ?st1 tp] p by simp
  have t2: "map_of (messages st2) tp = Some pl" by (simp add: m2 update_conv')
  show ?thesis
  proof (cases "e = None \<and> \<not> startswith tp ''/global/''")
    case True
    then have "on_message_try rt now st tp pl
                 = register_ping rt now (st2\<lparr>db_queue := db_queue st2 @ [(tp, pl)]\<rparr>) tp"
      using assms p by (auto simp: on_message_try_def Let_def)
    then show ?thesis using t2
      by (auto simp: register_ping_messages update_conv')
  next
    case False
    then have "fst (on_message_try rt now st tp pl) = st2"
      using assms p by (auto simp: on_message_try_def Let_def split: option.splits)
    then show ?thesis using t2 by simp
  qed
qed

subsection \<open>The change gate\<close>

text \<open>
  Claim C4. The handler compares the payload with the stored text of the topic. When they
  are equal the handler does nothing: the store, both queues and the log stay as they
  were, so no rule is evaluated, nothing is queued for publishing or for the database, and
  no ping is registered. The store changes only when the topic is absent or holds a
  different text, and for a topic that starts with a slash any difference in the text is
  enough, whatever the two texts would be coerced to. So the same message delivered twice
  in a row does nothing the second time.
\<close>

theorem set_is_change_gated:
  "(map_of (messages st) (topic m) = Some (payload m) \<longrightarrow>
      fst (on_message rt now st m) = st
      \<and> (decode (payload m) = Inr (payload m) \<longrightarrow> on_message rt now st m = (st, None)))
   \<and> (messages (fst (on_message rt now st m)) \<noteq> messages st \<longrightarrow>
        map_of (messages st) (topic m) \<noteq> Some (payload m))
   \<and> (startswith (topic m) ''/'' \<and> decode (payload m) = Inr (payload m)
        \<and> map_of (messages st) (topic m) \<noteq> Some (payload m) \<longrightarrow>
        map_of (messages (fst (on_message rt now st m))) (topic m) = Some (payload m))
   \<and> (startswith (topic m) ''/'' \<and> decode (payload m) = Inr (payload m) \<longrightarrow>
        on_message rt now (fst (on_message rt now st m)) m
          = (fst (on_message rt now st m), None))"
proof -
  have a: "fst (on_message rt now st m) = st
      \<and> (decode (payload m) = Inr (payload m) \<longrightarrow> on_message rt now st m = (st, None))"
    if "map_of (messages st) (topic m) = Some (payload m)" for st
    using that
    by (auto simp: on_message_def on_message_try_def split: sum.splits dest: decode_Inr)
  have c: "map_of (messages (fst (on_message rt now st m))) (topic m) = Some (payload m)"
    if "startswith (topic m) ''/''" "decode (payload m) = Inr (payload m)"
       "map_of (messages st) (topic m) \<noteq> Some (payload m)"
    using that on_message_try_messages_at_topic [of "topic m" st "payload m" rt now]
    by (simp add: on_message_def)
  have d: "on_message rt now (fst (on_message rt now st m)) m
             = (fst (on_message rt now st m), None)"
    if h: "startswith (topic m) ''/''" "decode (payload m) = Inr (payload m)"
  proof (cases "map_of (messages st) (topic m) = Some (payload m)")
    case True
    then show ?thesis using a [of st] h by simp
  next
    case False
    then have "map_of (messages (fst (on_message rt now st m))) (topic m) = Some (payload m)"
      using c h by simp
    then show ?thesis using a [of "fst (on_message rt now st m)"] h by simp
  qed
  show ?thesis using a [of st] c d by metis
qed

theorem set_is_change_gated_witness:
  "map_of (messages sample_store) ''/a/b/c'' = Some ''5''
   \<and> on_message sample_rt sample_now sample_store \<lparr>topic = ''/a/b/c'', payload = ''5''\<rparr>
       = (sample_store, None)
   \<and> map_of (messages sample_store) ''/a/b/c'' \<noteq> Some ''05''
   \<and> map_of (messages (fst (on_message sample_rt sample_now sample_store
                                \<lparr>topic = ''/a/b/c'', payload = ''05''\<rparr>))) ''/a/b/c''
       = Some ''05''"
proof -
  have a: "map_of (messages sample_store) ''/a/b/c'' = Some ''5''" by code_simp
  have b: "decode ''5'' = Inr ''5''" "decode ''05'' = Inr ''05''" by code_simp+
  have c: "startswith ''/a/b/c'' ''/''" by code_simp
  from set_is_change_gated
         [of sample_store "\<lparr>topic = ''/a/b/c'', payload = ''5''\<rparr>" sample_rt sample_now]
       set_is_change_gated
         [of sample_store "\<lparr>topic = ''/a/b/c'', payload = ''05''\<rparr>" sample_rt sample_now]
       a b c
  show ?thesis by simp
qed

subsection \<open>The reserved namespace\<close>

lemma on_message_try_reserved:
  assumes "startswith tp ''/global/''"
  shows "fst (on_message_try rt now st tp pl) =
           (if map_of (messages st) tp \<noteq> Some pl
            then fst (process_rules rt (st\<lparr>messages := AList.update tp pl (messages st)\<rparr>) tp)
            else st)"
  using assms startswith_global_slash [OF assms]
  by (auto simp: on_message_try_def Let_def split: prod.splits option.splits)

text \<open>
  Claim C8. For a message whose topic starts with \<^verbatim>\<open>/global/\<close> the handler queues nothing
  for the database and registers no ping: the store changes at the topic of the message
  only, and the publish queue receives nothing but the actions of the rules. The rules
  are evaluated as for any other topic: when the payload differs from the stored text, the
  handler does exactly what its rule block does on the updated store, with the topic as
  filter.
\<close>

theorem reserved_topic_skips_persistence_and_liveness:
  assumes "startswith (topic m) ''/global/''"
  shows "db_queue (fst (on_message rt now st m)) = db_queue st
       \<and> (\<forall>k. k \<noteq> topic m \<longrightarrow>
             map_of (messages (fst (on_message rt now st m))) k = map_of (messages st) k)
       \<and> (decode (payload m) = Inr (payload m)
            \<and> map_of (messages st) (topic m) \<noteq> Some (payload m) \<longrightarrow>
          fst (on_message rt now st m)
            = fst (process_rules rt
                     (st\<lparr>messages := AList.update (topic m) (payload m) (messages st)\<rparr>) (topic m))
          \<and> (\<forall>rs. rule_engine st = Some rs \<longrightarrow>
                hlog (fst (on_message rt now st m))
                  = hlog st @ snd (evaluate_rules rt rs
                                     (AList.update (topic m) (payload m) (messages st)) (topic m))
              \<and> publish_queue (fst (on_message rt now st m))
                  = fst (enqueue_actions rt
                           (fst (evaluate_rules rt rs
                                   (AList.update (topic m) (payload m) (messages st)) (topic m)))
                           (publish_queue st))))"
proof (cases "decode (payload m)")
  case (Inl e)
  then show ?thesis by (simp add: on_message_def)
next
  case (Inr pl)
  then have pl: "pl = payload m" by (rule decode_Inr)
  let ?st1 = "st\<lparr>messages := AList.update (topic m) (payload m) (messages st)\<rparr>"
  have o: "fst (on_message rt now st m) =
             (if map_of (messages st) (topic m) \<noteq> Some (payload m)
              then fst (process_rules rt ?st1 (topic m)) else st)"
    using Inr pl on_message_try_reserved [OF assms, of rt now st "payload m"]
    by (simp add: on_message_def)
  have 1: "db_queue (fst (on_message rt now st m)) = db_queue st"
    by (simp add: o process_rules_frame)
  have 2: "map_of (messages (fst (on_message rt now st m))) k = map_of (messages st) k"
    if "k \<noteq> topic m" for k
    using that by (simp add: o process_rules_frame update_conv')
  have 3: "hlog (fst (process_rules rt ?st1 (topic m)))
             = hlog st @ snd (evaluate_rules rt rs
                               (AList.update (topic m) (payload m) (messages st)) (topic m))
         \<and> publish_queue (fst (process_rules rt ?st1 (topic m)))
             = fst (enqueue_actions rt
                      (fst (evaluate_rules rt rs
                              (AList.update (topic m) (payload m) (messages st)) (topic m)))
                      (publish_queue st))"
    if "rule_engine st = Some rs" for rs
    using that by (simp add: process_rules_def split: prod.splits)
  show ?thesis using 1 2 3 o by simp
qed

theorem reserved_topic_skips_persistence_and_liveness_witness:
  "startswith ''/global/mode'' ''/global/''
   \<and> db_queue (fst (on_message sample_rt sample_now sample_store
                       \<lparr>topic = ''/global/mode'', payload = ''1''\<rparr>)) = []
   \<and> map_of (messages (fst (on_message sample_rt sample_now sample_store
                                \<lparr>topic = ''/global/mode'', payload = ''1''\<rparr>)))
        ''/global/ping/devices'' = None
   \<and> hlog (fst (on_message sample_rt sample_now sample_store
                    \<lparr>topic = ''/global/mode'', payload = ''1''\<rparr>)) = [LogData]
   \<and> publish_queue (fst (on_message sample_rt sample_now sample_store
                             \<lparr>topic = ''/global/mode'', payload = ''1''\<rparr>)) = []"
proof -
  have a: "startswith ''/global/mode'' ''/global/''" by code_simp
  have b: "decode ''1'' = Inr ''1''" by code_simp
  have c: "map_of (messages sample_store) ''/global/mode'' \<noteq> Some ''1''"
          "map_of (messages sample_store) ''/global/ping/devices'' = None"
          "db_queue sample_store = []" "hlog sample_store = []" "publish_queue sample_store = []"
          "rule_engine sample_store = Some (VList [sample_rule])"
    by code_simp+
  have d: "evaluate_rules sample_rt (VList [sample_rule])
             (AList.update ''/global/mode'' ''1'' (messages sample_store)) ''/global/mode''
           = ([], [LogData])"
    by code_simp
  from reserved_topic_skips_persistence_and_liveness
         [of "\<lparr>topic = ''/global/mode'', payload = ''1''\<rparr>" sample_rt sample_now sample_store]
       a b c d
  show ?thesis by auto
qed

subsection \<open>The liveness record\<close>

lemma register_ping_ok:
  assumes "register_ping rt now st tp = (st', None)"
  shows "map_of (messages st') (topic_ping st)
           = Some (case map_of (messages st) (topic_ping st) of None \<Rightarrow> ''{}'' | Some t \<Rightarrow> t)
       \<and> (\<exists>kvs. literal_eval_str rt
                   (case map_of (messages st) (topic_ping st) of None \<Rightarrow> ''{}'' | Some t \<Rightarrow> t)
                  = Inr (VDict kvs)
             \<and> publish_queue st'
                 = publish_queue st
                   @ [(VStr (topic_ping st),
                       py_str rt (VDict (AList.update (VStr (rsplit1_head tp)) (VStr now) kvs)))])"
proof (cases "map_of (messages st) (topic_ping st)")
  case None
  then show ?thesis using assms
    by (auto simp: register_ping_def Let_def update_conv' literal_eval_def setitem_str_def
             split: sum.splits pyval.splits)
next
  case (Some t)
  then show ?thesis using assms
    by (auto simp: register_ping_def Let_def literal_eval_def setitem_str_def
             split: sum.splits pyval.splits)
qed

lemma startswith_neq:
  "startswith a p \<Longrightarrow> \<not> startswith b p \<Longrightarrow> a \<noteq> b"
  by auto

lemma on_message_try_unreserved:
  assumes "\<not> startswith tp ''/global/''" and "startswith tp ''/''"
      and "map_of (messages st) tp \<noteq> Some pl"
  shows "on_message_try rt now st tp pl =
     (case process_rules rt (st\<lparr>messages := AList.update tp pl (messages st)\<rparr>) tp of
        (st2, Some e) \<Rightarrow> (st2, Some e)
      | (st2, None) \<Rightarrow> register_ping rt now (st2\<lparr>db_queue := db_queue st2 @ [(tp, pl)]\<rparr>) tp)"
  using assms by (auto simp: on_message_try_def Let_def split: prod.splits option.splits)

lemma on_message_try_messages:
  assumes "startswith (topic_ping st) ''/global/''" and "\<not> startswith tp ''/global/''"
  shows "(k \<noteq> tp \<and> k \<noteq> topic_ping st \<longrightarrow>
            map_of (messages (fst (on_message_try rt now st tp pl))) k = map_of (messages st) k)
       \<and> (map_of (messages st) (topic_ping st) \<noteq> None \<longrightarrow>
            map_of (messages (fst (on_message_try rt now st tp pl))) (topic_ping st)
              = map_of (messages st) (topic_ping st))
       \<and> (map_of (messages st) (topic_ping st) = None \<longrightarrow>
            map_of (messages (fst (on_message_try rt now st tp pl))) (topic_ping st) = None
          \<or> map_of (messages (fst (on_message_try rt now st tp pl))) (topic_ping st) = Some ''{}'')"
proof (cases "startswith tp ''/'' \<and> map_of (messages st) tp \<noteq> Some pl")
  case False
  then have "fst (on_message_try rt now st tp pl) = st"
    by (auto simp: on_message_try_def)
  then show ?thesis by simp
next
  case True
  have ne: "topic_ping st \<noteq> tp" using assms by (rule startswith_neq)
  let ?st1 = "st\<lparr>messages := AList.update tp pl (messages st)\<rparr>"
  obtain st2 e where p: "process_rules rt ?st1 tp = (st2, e)" by (metis surj_pair)
  have m2: "messages st2 = AList.update tp pl (messages st)"
    and t2: "topic_ping st2 = topic_ping st"
    using process_rules_frame(1,3) [of rt ?st1 tp] p by simp_all
  show ?thesis
  proof (cases e)
    case None
    then have "on_message_try rt now st tp pl
                 = register_ping rt now (st2\<lparr>db_queue := db_queue st2 @ [(tp, pl)]\<rparr>) tp"
      using True assms(2) p by (simp add: on_message_try_unreserved)
    then show ?thesis using ne
      by (auto simp: register_ping_messages m2 t2 update_conv')
  next
    case (Some x)
    then have "fst (on_message_try rt now st tp pl) = st2"
      using True assms(2) p by (simp add: on_message_try_unreserved)
    then show ?thesis using ne by (auto simp: m2 update_conv')
  qed
qed

lemma on_message_try_aggregate:
  assumes "startswith (topic_ping st) ''/global/''" and "\<not> startswith tp ''/global/''"
      and "startswith tp ''/''" and "map_of (messages st) tp \<noteq> Some pl"
      and "on_message_try rt now st tp pl = (st', None)"
  shows "map_of (messages st') (topic_ping st)
           = Some (case map_of (messages st) (topic_ping st) of None \<Rightarrow> ''{}'' | Some t \<Rightarrow> t)
       \<and> (\<exists>kvs. literal_eval_str rt
                   (case map_of (messages st) (topic_ping st) of None \<Rightarrow> ''{}'' | Some t \<Rightarrow> t)
                  = Inr (VDict kvs)
             \<and> publish_queue st' \<noteq> []
             \<and> last (publish_queue st')
                 = (VStr (topic_ping st),
                    py_str rt (VDict (AList.update (VStr (rsplit1_head tp)) (VStr now) kvs))))"
proof -
  have ne: "topic_ping st \<noteq> tp" using assms(1,2) by (rule startswith_neq)
  let ?st1 = "st\<lparr>messages := AList.update tp pl (messages st)\<rparr>"
  obtain st2 e where p: "process_rules rt ?st1 tp = (st2, e)" by (metis surj_pair)
  have m2: "messages st2 = AList.update tp pl (messages st)"
    and t2: "topic_ping st2 = topic_ping st"
    using process_rules_frame(1,3) [of rt ?st1 tp] p by simp_all
  let ?st3 = "st2\<lparr>db_queue := db_queue st2 @ [(tp, pl)]\<rparr>"
  have e: "e = None" and r: "register_ping rt now ?st3 tp = (st', None)"
    using assms(5) p on_message_try_unreserved [OF assms(2,3,4), of rt now]
    by (cases e; simp)+
  have mp: "map_of (messages ?st3) (topic_ping ?st3) = map_of (messages st) (topic_ping st)"
    using ne by (simp add: m2 t2 update_conv')
  from register_ping_ok [OF r] show ?thesis
    unfolding mp by (auto simp: t2)
qed

text \<open>
  Claim C10. For a topic outside \<^verbatim>\<open>/global/\<close>, and the ping topic inside it, one message
  changes the store at its own topic and nowhere else, except that an absent ping topic
  may be set to \<^verbatim>\<open>{}\<close>; a ping topic that is present keeps its text. When the handler
  runs to its end, the last publish request holds the record read from that stored text
  with the new time stamp added, and the stored text is still the old one, or \<^verbatim>\<open>{}\<close>.
\<close>

theorem liveness_aggregate_not_stored:
  assumes "\<not> startswith (topic m) ''/global/''" and "startswith (topic_ping st) ''/global/''"
  shows "(\<forall>k. k \<noteq> topic m \<and> k \<noteq> topic_ping st \<longrightarrow>
            map_of (messages (fst (on_message rt now st m))) k = map_of (messages st) k)
       \<and> (map_of (messages st) (topic_ping st) \<noteq> None \<longrightarrow>
            map_of (messages (fst (on_message rt now st m))) (topic_ping st)
              = map_of (messages st) (topic_ping st))
       \<and> (map_of (messages st) (topic_ping st) = None \<longrightarrow>
            map_of (messages (fst (on_message rt now st m))) (topic_ping st) = None
          \<or> map_of (messages (fst (on_message rt now st m))) (topic_ping st) = Some ''{}'')
       \<and> (\<forall>st'. startswith (topic m) ''/'' \<and> decode (payload m) = Inr (payload m)
               \<and> map_of (messages st) (topic m) \<noteq> Some (payload m)
               \<and> on_message_try rt now st (topic m) (payload m) = (st', None) \<longrightarrow>
             fst (on_message rt now st m) = st'
           \<and> map_of (messages st') (topic_ping st)
               = Some (case map_of (messages st) (topic_ping st) of
                         None \<Rightarrow> ''{}'' | Some t \<Rightarrow> t)
           \<and> (\<exists>kvs. literal_eval_str rt
                       (case map_of (messages st) (topic_ping st) of
                          None \<Rightarrow> ''{}'' | Some t \<Rightarrow> t) = Inr (VDict kvs)
                \<and> publish_queue st' \<noteq> []
                \<and> last (publish_queue st')
                    = (VStr (topic_ping st),
                       py_str rt (VDict (AList.update (VStr (rsplit1_head (topic m)))
                                           (VStr now) kvs)))))"
proof -
  have f: "fst (on_message rt now st m) = st
         \<or> (decode (payload m) = Inr (payload m)
            \<and> fst (on_message rt now st m)
                = fst (on_message_try rt now st (topic m) (payload m)))"
    by (auto simp: on_message_def split: sum.splits dest: decode_Inr)
  note ms = on_message_try_messages [OF assms(2,1), of _ rt now "payload m"]
  have 1: "map_of (messages (fst (on_message rt now st m))) k = map_of (messages st) k"
    if "k \<noteq> topic m \<and> k \<noteq> topic_ping st" for k
    using f ms [of k] that by auto
  have 2: "map_of (messages (fst (on_message rt now st m))) (topic_ping st)
              = map_of (messages st) (topic_ping st)"
    if "map_of (messages st) (topic_ping st) \<noteq> None"
    using f ms [of "topic_ping st"] that by auto
  have 3: "map_of (messages (fst (on_message rt now st m))) (topic_ping st) = None
          \<or> map_of (messages (fst (on_message rt now st m))) (topic_ping st) = Some ''{}''"
    if "map_of (messages st) (topic_ping st) = None"
    using f ms [of "topic_ping st"] that by auto
  have 4: "fst (on_message rt now st m) = st'
           \<and> map_of (messages st') (topic_ping st)
               = Some (case map_of (messages st) (topic_ping st) of
                         None \<Rightarrow> ''{}'' | Some t \<Rightarrow> t)
           \<and> (\<exists>kvs. literal_eval_str rt
                       (case map_of (messages st) (topic_ping st) of
                          None \<Rightarrow> ''{}'' | Some t \<Rightarrow> t) = Inr (VDict kvs)
                \<and> publish_queue st' \<noteq> []
                \<and> last (publish_queue st')
                    = (VStr (topic_ping st),
                       py_str rt (VDict (AList.update (VStr (rsplit1_head (topic m)))
                                           (VStr now) kvs))))"
    if h: "startswith (topic m) ''/'' \<and> decode (payload m) = Inr (payload m)
               \<and> map_of (messages st) (topic m) \<noteq> Some (payload m)
               \<and> on_message_try rt now st (topic m) (payload m) = (st', None)" for st'
  proof -
    have "fst (on_message rt now st m) = st'" using h by (simp add: on_message_def)
    moreover note on_message_try_aggregate [OF assms(2,1), of "payload m" rt now st']
    ultimately show ?thesis using h by blast
  qed
  show ?thesis using 1 2 3 4 by blast
qed

theorem liveness_aggregate_not_stored_witness:
  "\<not> startswith ''/a/b/c'' ''/global/''
   \<and> startswith (topic_ping sample_hub) ''/global/''
   \<and> map_of (messages (fst (on_message sample_rt sample_now sample_hub
                                \<lparr>topic = ''/a/b/c'', payload = ''5''\<rparr>)))
        ''/global/ping/devices'' = Some ''{}''
   \<and> last (publish_queue (fst (on_message sample_rt sample_now sample_hub
                                  \<lparr>topic = ''/a/b/c'', payload = ''5''\<rparr>)))
       = (VStr ''/global/ping/devices'', ''{'/a/b': '2024-01-01 00:00:00'}'')"
proof -
  let ?m = "\<lparr>topic = ''/a/b/c'', payload = ''5''\<rparr>"
  have a: "\<not> startswith (topic ?m) ''/global/''" by code_simp
  have b: "startswith (topic_ping sample_hub) ''/global/''" by code_simp
  have c: "startswith (topic ?m) ''/''" "decode (payload ?m) = Inr (payload ?m)"
          "map_of (messages sample_hub) (topic ?m) \<noteq> Some (payload ?m)"
    by code_simp+
  have "snd (on_message_try sample_rt sample_now sample_hub ''/a/b/c'' ''5'') = None"
    by code_simp
  then have d: "on_message_try sample_rt sample_now sample_hub (topic ?m) (payload ?m)
             = (fst (on_message_try sample_rt sample_now sample_hub ''/a/b/c'' ''5''), None)"
    by (simp add: prod_eq_iff)
  have e: "topic_ping sample_hub = ''/global/ping/devices''"
          "map_of (messages sample_hub) ''/global/ping/devices'' = None"
          "literal_eval_str sample_rt ''{}'' = Inr (VDict [])"
    by code_simp+
  have f: "py_str sample_rt (VDict (AList.update (VStr (rsplit1_head ''/a/b/c''))
                                      (VStr sample_now) []))
             = ''{'/a/b': '2024-01-01 00:00:00'}''"
    by code_simp
  from liveness_aggregate_not_stored [OF a b, of sample_rt sample_now] c d
  have "fst (on_message sample_rt sample_now sample_hub ?m)
          = fst (on_message_try sample_rt sample_now sample_hub ''/a/b/c'' ''5'')
        \<and> map_of (messages (fst (on_message_try sample_rt sample_now sample_hub ''/a/b/c'' ''5'')))
            (topic_ping sample_hub)
           = Some (case map_of (messages sample_hub) (topic_ping sample_hub) of
                     None \<Rightarrow> ''{}'' | Some t \<Rightarrow> t)
        \<and> (\<exists>kvs. literal_eval_str sample_rt
                    (case map_of (messages sample_hub) (topic_ping sample_hub) of
                       None \<Rightarrow> ''{}'' | Some t \<Rightarrow> t) = Inr (VDict kvs)
             \<and> publish_queue (fst (on_message_try sample_rt sample_now sample_hub ''/a/b/c'' ''5'')) \<noteq> []
             \<and> last (publish_queue (fst (on_message_try sample_rt sample_now sample_hub ''/a/b/c'' ''5'')))
                 = (VStr (topic_ping sample_hub),
                    py_str sample_rt (VDict (AList.update (VStr (rsplit1_head (topic ?m)))
                                               (VStr sample_now) kvs))))"
    by blast
  then show ?thesis using a b e f by auto
qed

subsection \<open>A payload that does not decode\<close>


text \<open>
  Claim C9. The claim is that no exception leaves the handler. When the payload is not
  UTF-8, \<^verbatim>\<open>msg.payload.decode()\<close> raises before \<^verbatim>\<open>payload\<close> is bound, and the handler's
  \<^verbatim>\<open>print\<close> formats \<^verbatim>\<open>payload\<close>: \<^verbatim>\<open>UnboundLocalError\<close> leaves \<^verbatim>\<open>on_message\<close>. The byte
  \<^verbatim>\<open>0xFF\<close> appears in no UTF-8 text.
\<close>

theorem on_message_undecodable_payload:
  "on_message rt now st \<lparr>topic = ''/room/lamp/state'', payload = [char_of (255 :: nat)]\<rparr>
     = (st, Some UnboundLocalError)"
  by (simp add: on_message_def decode_def code_def)

end
